theory Spec2Isabelle
  imports Main "HOL-Library.Word"
begin

section \<open>Machine integers and faults\<close>

text \<open>
  The sample is C++ for a 32-bit \<open>int\<close>. An \<open>int\<close> is a \<open>32 word\<close>: \<open>*\<close> and \<open>+\<close> wrap
  around modulo \<open>2 ^ 32\<close> and \<open>sint\<close> reads the two's-complement value. (The C++ standard
  leaves signed overflow undefined; the wrap-around is what the usual targets compute.)

  Whatever the source does that has no defined result is a value of \<open>fault\<close>, returned
  on the left of a sum, so that each such path is a branch of the model.
\<close>

type_synonym int32 = "32 word"

datatype fault =
    UninitializedRead     \<comment> \<open>the value of a local variable that was never assigned\<close>
  | NullDereference       \<comment> \<open>a library call writes or reads through a null pointer\<close>
  | UninitializedMutex    \<comment> \<open>\<open>pthread_mutex_lock\<close> on a mutex no one initialised\<close>
  | NotLocked             \<comment> \<open>\<open>pthread_mutex_unlock\<close> on a mutex that is not locked\<close>
  | WouldBlock            \<comment> \<open>\<open>pthread_mutex_lock\<close> on a locked mutex: the caller waits\<close>
  | BadAlloc              \<comment> \<open>\<open>operator new\<close> throws \<open>std::bad_alloc\<close>\<close>
  | InvalidFree           \<comment> \<open>\<open>free\<close> or \<open>delete\<close> of a pointer that is not a live block\<close>

section \<open>\<open>calculate_buffer_size\<close>\<close>

text \<open>
  \<^verbatim>\<open>
  int calculate_buffer_size(int num_elements, int element_size) {
      int total_size = num_elements * element_size;
      if (total_size > 0) {
          return total_size;
      }
      int result;
      return result;
  }
  \<close>
  The second \<open>return\<close> reads \<open>result\<close>, which holds no value.
\<close>

definition calculate_buffer_size :: "int32 \<Rightarrow> int32 \<Rightarrow> fault + int32" where
  "calculate_buffer_size num_elements element_size =
     (let total_size = num_elements * element_size
      in if 0 <s total_size then Inr total_size else Inl UninitializedRead)"

section \<open>Memory, allocations and open files\<close>

text \<open>
  The process memory is flat: a byte at every address. Beside it the model keeps the
  books a leak checker would keep: the blocks handed out by \<open>malloc\<close>, \<open>new\<close> and
  \<open>new[]\<close> that were not given back (\<open>live\<close>, each with its base address and size) and
  the \<open>FILE\<close> handles that \<open>fopen\<close> returned and nobody closed (\<open>open_files\<close>).
  The allocator hands out fresh addresses from \<open>brk\<close> upwards and fails once
  \<open>heap_end\<close> would be passed; \<open>fopen\<close> for writing succeeds on the paths listed in
  \<open>writable\<close>. A pointer is \<open>None\<close> when it is null.
\<close>

type_synonym addr = nat
type_synonym ptr = "addr option"

record memory =
  bytes :: "addr \<Rightarrow> char"
  live :: "(addr \<times> nat) list"
  brk :: addr
  heap_end :: addr
  open_files :: "nat list"
  next_file :: nat
  writable :: "string list"

definition alloc :: "nat \<Rightarrow> memory \<Rightarrow> (addr \<times> memory) option" where
  "alloc n m =
     (if brk m + n \<le> heap_end m
      then Some (brk m, m\<lparr>live := (brk m, n) # live m, brk := brk m + n\<rparr>)
      else None)"

text \<open>\<open>malloc\<close> returns null when the block cannot be had.\<close>

definition malloc :: "nat \<Rightarrow> memory \<Rightarrow> ptr \<times> memory" where
  "malloc n m = (case alloc n m of None \<Rightarrow> (None, m) | Some (a, m') \<Rightarrow> (Some a, m'))"

text \<open>\<open>new T[n]\<close> and \<open>operator new\<close> throw \<open>std::bad_alloc\<close> instead.\<close>

definition operator_new :: "nat \<Rightarrow> memory \<Rightarrow> fault + (addr \<times> memory)" where
  "operator_new n m = (case alloc n m of None \<Rightarrow> Inl BadAlloc | Some r \<Rightarrow> Inr r)"

text \<open>
  \<open>free\<close>, \<open>delete\<close> and \<open>delete[]\<close> take the block off the books. On a null pointer they
  do nothing. On any other pointer that is not the base of a live block (one never
  allocated, or one given back before) they have no defined result.
\<close>

definition release :: "ptr \<Rightarrow> memory \<Rightarrow> fault + memory" where
  "release p m =
     (case p of
        None \<Rightarrow> Inr m
      | Some a \<Rightarrow>
          (if a \<in> set (map fst (live m))
           then Inr (m\<lparr>live := filter (\<lambda>blk. fst blk \<noteq> a) (live m)\<rparr>)
           else Inl InvalidFree))"

definition fopen_w :: "string \<Rightarrow> memory \<Rightarrow> nat option \<times> memory" where
  "fopen_w path m =
     (if path \<in> set (writable m)
      then (Some (next_file m),
            m\<lparr>open_files := next_file m # open_files m, next_file := Suc (next_file m)\<rparr>)
      else (None, m))"

subsection \<open>C strings\<close>

text \<open>
  A \<open>const char*\<close> argument is given by the characters it points to; the C string ends at
  the first NUL. \<open>strcpy\<close> copies the characters and the terminator to consecutive
  addresses from the destination on. It is told no capacity and checks none.
\<close>

definition NUL :: char where
  "NUL = CHR 0x00"

definition c_str :: "string \<Rightarrow> string" where
  "c_str s = takeWhile (\<lambda>c. c \<noteq> NUL) s"

fun store_bytes :: "addr \<Rightarrow> string \<Rightarrow> (addr \<Rightarrow> char) \<Rightarrow> (addr \<Rightarrow> char)" where
  "store_bytes a [] b = b"
| "store_bytes a (c # cs) b = store_bytes (Suc a) cs (b(a := c))"

definition strcpy_at :: "addr \<Rightarrow> string \<Rightarrow> memory \<Rightarrow> memory" where
  "strcpy_at a src m = m\<lparr>bytes := store_bytes a (c_str src @ [NUL]) (bytes m)\<rparr>"

definition strcpy :: "ptr \<Rightarrow> string \<Rightarrow> memory \<Rightarrow> fault + memory" where
  "strcpy dst src m =
     (case dst of None \<Rightarrow> Inl NullDereference | Some a \<Rightarrow> Inr (strcpy_at a src m))"

text \<open>
  \<open>strlen\<close> walks the memory until it meets a NUL. Nothing bounds the walk, so it is a
  partial function: \<open>None\<close> when no NUL follows.
\<close>

partial_function (option) strlen_from :: "(addr \<Rightarrow> char) \<Rightarrow> addr \<Rightarrow> nat \<Rightarrow> nat option" where
  "strlen_from b a n = (if b (a + n) = NUL then Some n else strlen_from b a (Suc n))"

definition strlen :: "addr \<Rightarrow> memory \<Rightarrow> nat option" where
  "strlen a m = strlen_from (bytes m) a 0"

text \<open>\<open>strcat\<close> copies the source over the destination's terminator.\<close>

definition strcat :: "addr \<Rightarrow> string \<Rightarrow> memory \<Rightarrow> memory option" where
  "strcat dst src m =
     (case strlen dst m of None \<Rightarrow> None
      | Some n \<Rightarrow> Some (m\<lparr>bytes := store_bytes (dst + n) (c_str src @ [NUL]) (bytes m)\<rparr>))"

text \<open>
  \<open>gets\<close> stores the next line of standard input (without its newline) and a NUL, however
  long the line is; at end of input it stores nothing.
\<close>

definition gets :: "addr \<Rightarrow> string option \<Rightarrow> memory \<Rightarrow> memory" where
  "gets dst line m =
     (case line of None \<Rightarrow> m
      | Some l \<Rightarrow> m\<lparr>bytes := store_bytes dst (l @ [NUL]) (bytes m)\<rparr>)"

section \<open>\<open>BadResourceManager\<close> and \<open>DerivedBadClass\<close>\<close>

text \<open>
  \<^verbatim>\<open>
  class BadResourceManager {
  public:
      BadResourceManager() {
          data = new char[1024];
          file_handle = fopen("/data/temp.txt", "w");
          buffer_size = 1024;
      }
      ~BadResourceManager() { }
      BadResourceManager(const BadResourceManager& other) {
          data = other.data;
          file_handle = other.file_handle;
          buffer_size = other.buffer_size;
      }
  private:
      char* data;  FILE* file_handle;  int buffer_size;
  };
  class DerivedBadClass : public BadResourceManager {
  public:
      DerivedBadClass() { extra_data = malloc(2048); }
      void* extra_data;
  };
  \<close>
  A constructor returns the fields it has set and the memory it leaves. The destructor of
  \<open>BadResourceManager\<close> has an empty body, and \<open>DerivedBadClass\<close> declares none: its implicit
  destructor has nothing to do for \<open>extra_data\<close> (a raw pointer) and runs the base's.
  Since the base's destructor is not virtual, destroying a \<open>DerivedBadClass\<close> through a
  \<open>BadResourceManager*\<close> runs the base's destructor alone.
\<close>

record BadResourceManager =
  data :: ptr
  file_handle :: "nat option"
  buffer_size :: int32

record DerivedBadClass = BadResourceManager +
  extra_data :: ptr

definition BadResourceManager_ctor :: "memory \<Rightarrow> fault + (BadResourceManager \<times> memory)" where
  "BadResourceManager_ctor m =
     (case operator_new 1024 m of
        Inl e \<Rightarrow> Inl e
      | Inr (d, m1) \<Rightarrow>
          (case fopen_w ''/data/temp.txt'' m1 of
             (f, m2) \<Rightarrow> Inr (\<lparr>data = Some d, file_handle = f, buffer_size = 1024\<rparr>, m2)))"

definition BadResourceManager_dtor :: "BadResourceManager \<Rightarrow> memory \<Rightarrow> memory" where
  "BadResourceManager_dtor this m = m"

definition BadResourceManager_copy_ctor :: "BadResourceManager \<Rightarrow> BadResourceManager" where
  "BadResourceManager_copy_ctor other =
     \<lparr>data = data other, file_handle = file_handle other, buffer_size = buffer_size other\<rparr>"

definition DerivedBadClass_ctor :: "memory \<Rightarrow> fault + (DerivedBadClass \<times> memory)" where
  "DerivedBadClass_ctor m =
     (case BadResourceManager_ctor m of
        Inl e \<Rightarrow> Inl e
      | Inr (base, m1) \<Rightarrow>
          (case malloc 2048 m1 of
             (x, m2) \<Rightarrow> Inr (BadResourceManager.extend base \<lparr>extra_data = x\<rparr>, m2)))"

definition DerivedBadClass_dtor :: "DerivedBadClass \<Rightarrow> memory \<Rightarrow> memory" where
  "DerivedBadClass_dtor this m = BadResourceManager_dtor (BadResourceManager.truncate this) m"

text \<open>Destruction through a handle typed \<open>BadResourceManager*\<close>.\<close>

definition destroy_through_base :: "DerivedBadClass \<Rightarrow> memory \<Rightarrow> memory" where
  "destroy_through_base this m = BadResourceManager_dtor (BadResourceManager.truncate this) m"

text \<open>
  The class gives no access to \<open>data\<close>. Reading and writing the buffer an object holds is
  reading and writing the memory at its \<open>data\<close> pointer.
\<close>

definition buffer_write :: "BadResourceManager \<Rightarrow> nat \<Rightarrow> char \<Rightarrow> memory \<Rightarrow> fault + memory" where
  "buffer_write obj i c m =
     (case data obj of None \<Rightarrow> Inl NullDereference
      | Some a \<Rightarrow> Inr (m\<lparr>bytes := (bytes m)(a + i := c)\<rparr>))"

definition buffer_read :: "BadResourceManager \<Rightarrow> nat \<Rightarrow> memory \<Rightarrow> fault + char" where
  "buffer_read obj i m =
     (case data obj of None \<Rightarrow> Inl NullDereference | Some a \<Rightarrow> Inr (bytes m (a + i)))"

text \<open>
  A process with nothing allocated, no file open, 64 KiB of heap and leave to write
  \<open>/data/temp.txt\<close>.
\<close>

definition fresh_memory :: memory where
  "fresh_memory =
     \<lparr>bytes = (\<lambda>a. NUL), live = [], brk = 1, heap_end = 65536,
      open_files = [], next_file = 0, writable = [''/data/temp.txt'']\<rparr>"

section \<open>\<open>unsafe_string_operation\<close>\<close>

text \<open>
  \<^verbatim>\<open>
  void unsafe_string_operation(const char* input) {
      char local_buffer[64];
      strcpy(local_buffer, input);
      strcat(local_buffer, "_suffix");
      gets(local_buffer);
      printf("Result: %s\n", local_buffer);
  }
  \<close>
  The array is the 64 bytes from the address \<open>local_buffer\<close> that the frame gives it. The
  function is given that address, the argument and the line \<open>gets\<close> will find on standard
  input (\<open>None\<close> at end of input), and returns the memory it leaves; \<open>printf\<close> writes to
  standard output only, which the model does not hold.
\<close>

definition local_buffer_size :: nat where
  "local_buffer_size = 64"

definition unsafe_string_operation ::
  "addr \<Rightarrow> string \<Rightarrow> string option \<Rightarrow> memory \<Rightarrow> memory option" where
  "unsafe_string_operation local_buffer input stdin_line m =
     (let m1 = strcpy_at local_buffer input m
      in case strcat local_buffer ''_suffix'' m1 of
           None \<Rightarrow> None
         | Some m2 \<Rightarrow> Some (gets local_buffer stdin_line m2))"

section \<open>The globals and \<open>thread_function\<close>\<close>

text \<open>
  \<^verbatim>\<open>
  char* g_buffer = NULL;
  int g_counter = 0;
  pthread_mutex_t g_mutex; // Never initialized!
  \<close>
  No statement of the program calls \<open>pthread_mutex_init\<close> or assigns
  \<open>PTHREAD_MUTEX_INITIALIZER\<close>, so a mutex starts \<open>Uninitialized\<close> and nothing in the model
  takes it out of that state. (The zero-filled storage of a global is not an initialised
  mutex: POSIX defines \<open>pthread_mutex_lock\<close> only on a mutex initialised in one of these
  two ways.) The static \<open>BadSingleton::instance\<close> is a global too; the
  \<open>BadSingleton\<close> objects constructed so far are kept with it, each with its address and its
  \<open>data\<close> field.
\<close>

datatype mutex = Uninitialized | Unlocked | Locked

record program =
  mem :: memory
  g_buffer :: ptr
  g_counter :: int32
  g_mutex :: mutex
  BadSingleton_instance :: ptr
  BadSingleton_objects :: "(addr \<times> ptr) list"

definition program_start :: "memory \<Rightarrow> program" where
  "program_start m =
     \<lparr>mem = m, g_buffer = None, g_counter = 0, g_mutex = Uninitialized,
      BadSingleton_instance = None, BadSingleton_objects = []\<rparr>"

definition pthread_mutex_lock :: "mutex \<Rightarrow> fault + mutex" where
  "pthread_mutex_lock mu =
     (case mu of Uninitialized \<Rightarrow> Inl UninitializedMutex
      | Unlocked \<Rightarrow> Inr Locked
      | Locked \<Rightarrow> Inl WouldBlock)"

definition pthread_mutex_unlock :: "mutex \<Rightarrow> fault + mutex" where
  "pthread_mutex_unlock mu =
     (case mu of Uninitialized \<Rightarrow> Inl UninitializedMutex
      | Unlocked \<Rightarrow> Inl NotLocked
      | Locked \<Rightarrow> Inr Unlocked)"

text \<open>
  \<^verbatim>\<open>
  void* thread_function(void* arg) {
      g_counter++;
      if (g_buffer != NULL) {
          strcpy(g_buffer, "Thread was here");
      }
      char* temp = (char*)malloc(1000);
      strcpy(temp, "Some data");
      return NULL;
  }
  \<close>
  First the function run on its own, from entry to \<open>return\<close>: it yields the pointer it
  returns (always null) and the state it leaves, or the fault it runs into.
\<close>

definition thread_function :: "program \<Rightarrow> fault + (ptr \<times> program)" where
  "thread_function s =
     (let s1 = s\<lparr>g_counter := g_counter s + 1\<rparr>
      in case (if g_buffer s1 \<noteq> None
               then (case strcpy (g_buffer s1) ''Thread was here'' (mem s1) of
                       Inl e \<Rightarrow> Inl e | Inr m \<Rightarrow> Inr (s1\<lparr>mem := m\<rparr>))
               else Inr s1) of
           Inl e \<Rightarrow> Inl e
         | Inr s2 \<Rightarrow>
             (case malloc 1000 (mem s2) of
                (temp, m3) \<Rightarrow>
                  (case strcpy temp ''Some data'' m3 of
                     Inl e \<Rightarrow> Inl e
                   | Inr m4 \<Rightarrow> Inr (None, s2\<lparr>mem := m4\<rparr>))))"

text \<open>
  \<^verbatim>\<open>
  pthread_mutex_lock(&g_mutex);
  g_counter++;
  pthread_mutex_unlock(&g_mutex);
  \<close>
  The three statements of \<open>main\<close> that touch the counter.
\<close>

definition main_locked_increment :: "program \<Rightarrow> fault + program" where
  "main_locked_increment s =
     (case pthread_mutex_lock (g_mutex s) of
        Inl e \<Rightarrow> Inl e
      | Inr held \<Rightarrow>
          (let s1 = s\<lparr>g_mutex := held\<rparr>;
               s2 = s1\<lparr>g_counter := g_counter s1 + 1\<rparr>
           in case pthread_mutex_unlock (g_mutex s2) of
                Inl e \<Rightarrow> Inl e
              | Inr released \<Rightarrow> Inr (s2\<lparr>g_mutex := released\<rparr>)))"

section \<open>\<open>BadSingleton\<close>\<close>

text \<open>
  \<^verbatim>\<open>
  class BadSingleton {
  public:
      static BadSingleton* getInstance() {
          if (instance == nullptr) {
              instance = new BadSingleton();
          }
          return instance;
      }
      ~BadSingleton() {}
  private:
      BadSingleton() { data = new int[1000]; }
      static BadSingleton* instance;
      int* data;
  };
  BadSingleton* BadSingleton::instance = nullptr;
  \<close>
  An object is one pointer wide (8 bytes on the 64-bit targets) and an \<open>int\<close> is 4 bytes;
  no result below depends on either number.
\<close>

definition sizeof_BadSingleton :: nat where
  "sizeof_BadSingleton = 8"

definition BadSingleton_ctor :: "memory \<Rightarrow> fault + (ptr \<times> memory)" where
  "BadSingleton_ctor m =
     (case operator_new (1000 * 4) m of Inl e \<Rightarrow> Inl e | Inr (d, m') \<Rightarrow> Inr (Some d, m'))"

definition new_BadSingleton :: "program \<Rightarrow> fault + (addr \<times> program)" where
  "new_BadSingleton s =
     (case operator_new sizeof_BadSingleton (mem s) of
        Inl e \<Rightarrow> Inl e
      | Inr (p, m1) \<Rightarrow>
          (case BadSingleton_ctor m1 of
             Inl e \<Rightarrow> Inl e
           | Inr (d, m2) \<Rightarrow>
               Inr (p, s\<lparr>mem := m2, BadSingleton_objects := (p, d) # BadSingleton_objects s\<rparr>)))"

definition getInstance :: "program \<Rightarrow> fault + (ptr \<times> program)" where
  "getInstance s =
     (if BadSingleton_instance s = None
      then (case new_BadSingleton s of
              Inl e \<Rightarrow> Inl e
            | Inr (p, s1) \<Rightarrow>
                (let s2 = s1\<lparr>BadSingleton_instance := Some p\<rparr>
                 in Inr (BadSingleton_instance s2, s2)))
      else Inr (BadSingleton_instance s, s))"

text \<open>
  The destructor is public and its body is empty: it neither deletes \<open>data\<close> nor resets
  \<open>instance\<close>. \<open>delete p\<close> runs it and gives the object's storage back; where \<open>p\<close> is not
  a live object (never constructed, or deleted before) the \<open>delete\<close> has no defined result.
\<close>

definition BadSingleton_dtor :: "addr \<Rightarrow> program \<Rightarrow> program" where
  "BadSingleton_dtor this s = s"

definition delete_BadSingleton :: "addr \<Rightarrow> program \<Rightarrow> fault + program" where
  "delete_BadSingleton p s =
     (let s1 = BadSingleton_dtor p s
      in case release (Some p) (mem s1) of
           Inl e \<Rightarrow> Inl e
         | Inr m \<Rightarrow> Inr (s1\<lparr>mem := m\<rparr>))"

section \<open>Threads\<close>

text \<open>
  Threads share the \<open>program\<close> state and run interleaved: a schedule names, step by step,
  the thread that moves next. Each kind of thread is a step function on its own local
  state and the shared state; a thread that has returned stays as it is.
\<close>

record 't system =
  shared :: program
  threads :: "'t list"

definition step ::
  "('t \<Rightarrow> program \<Rightarrow> fault + ('t \<times> program)) \<Rightarrow> nat \<Rightarrow> 't system \<Rightarrow> fault + 't system" where
  "step f i sys =
     (if i < length (threads sys)
      then (case f (threads sys ! i) (shared sys) of
              Inl e \<Rightarrow> Inl e
            | Inr (t, s) \<Rightarrow> Inr \<lparr>shared = s, threads = (threads sys)[i := t]\<rparr>)
      else Inr sys)"

fun run ::
  "('t \<Rightarrow> program \<Rightarrow> fault + ('t \<times> program)) \<Rightarrow> nat list \<Rightarrow> 't system \<Rightarrow> fault + 't system" where
  "run f [] sys = Inr sys"
| "run f (i # sched) sys = (case step f i sys of Inl e \<Rightarrow> Inl e | Inr sys' \<Rightarrow> run f sched sys')"

subsection \<open>\<open>thread_function\<close> as a thread\<close>

text \<open>
  The steps of \<open>thread_function\<close> at which another thread can come between. \<open>g_counter++\<close>
  on a plain \<open>int\<close>, with no lock held, is a load followed by a store of the loaded value
  plus one.
\<close>

datatype worker_pc = At_load | At_store | At_check | At_malloc | At_copy | Returned

record worker =
  pc :: worker_pc
  loaded :: int32
  temp :: ptr

definition new_worker :: worker where
  "new_worker = \<lparr>pc = At_load, loaded = 0, temp = None\<rparr>"

definition thread_step :: "worker \<Rightarrow> program \<Rightarrow> fault + (worker \<times> program)" where
  "thread_step w s =
     (case pc w of
        At_load \<Rightarrow> Inr (w\<lparr>pc := At_store, loaded := g_counter s\<rparr>, s)
      | At_store \<Rightarrow> Inr (w\<lparr>pc := At_check\<rparr>, s\<lparr>g_counter := loaded w + 1\<rparr>)
      | At_check \<Rightarrow>
          (if g_buffer s \<noteq> None
           then (case strcpy (g_buffer s) ''Thread was here'' (mem s) of
                   Inl e \<Rightarrow> Inl e
                 | Inr m \<Rightarrow> Inr (w\<lparr>pc := At_malloc\<rparr>, s\<lparr>mem := m\<rparr>))
           else Inr (w\<lparr>pc := At_malloc\<rparr>, s))
      | At_malloc \<Rightarrow>
          (case malloc 1000 (mem s) of
             (t, m) \<Rightarrow> Inr (w\<lparr>pc := At_copy, temp := t\<rparr>, s\<lparr>mem := m\<rparr>))
      | At_copy \<Rightarrow>
          (case strcpy (temp w) ''Some data'' (mem s) of
             Inl e \<Rightarrow> Inl e
           | Inr m \<Rightarrow> Inr (w\<lparr>pc := Returned\<rparr>, s\<lparr>mem := m\<rparr>))
      | Returned \<Rightarrow> Inr (w, s))"

text \<open>\<open>n\<close> calls of \<open>pthread_create(..., thread_function, NULL)\<close>.\<close>

definition spawn_workers :: "nat \<Rightarrow> program \<Rightarrow> worker system" where
  "spawn_workers n s = \<lparr>shared = s, threads = replicate n new_worker\<rparr>"

subsection \<open>\<open>getInstance\<close> as a thread\<close>

text \<open>
  A thread that calls \<open>getInstance\<close> once: the test, the \<open>new\<close> expression, the store to
  \<open>instance\<close> and the load for \<open>return instance\<close> are steps of their own.
\<close>

datatype caller_pc = At_test | At_new | At_assign | At_return | Done

record caller =
  cpc :: caller_pc
  created :: ptr
  result :: ptr

definition new_caller :: caller where
  "new_caller = \<lparr>cpc = At_test, created = None, result = None\<rparr>"

definition getInstance_step :: "caller \<Rightarrow> program \<Rightarrow> fault + (caller \<times> program)" where
  "getInstance_step c s =
     (case cpc c of
        At_test \<Rightarrow>
          (if BadSingleton_instance s = None
           then Inr (c\<lparr>cpc := At_new\<rparr>, s)
           else Inr (c\<lparr>cpc := At_return\<rparr>, s))
      | At_new \<Rightarrow>
          (case new_BadSingleton s of
             Inl e \<Rightarrow> Inl e
           | Inr (p, s1) \<Rightarrow> Inr (c\<lparr>cpc := At_assign, created := Some p\<rparr>, s1))
      | At_assign \<Rightarrow> Inr (c\<lparr>cpc := At_return\<rparr>, s\<lparr>BadSingleton_instance := created c\<rparr>)
      | At_return \<Rightarrow> Inr (c\<lparr>cpc := Done, result := BadSingleton_instance s\<rparr>, s)
      | Done \<Rightarrow> Inr (c, s))"

definition spawn_callers :: "nat \<Rightarrow> program \<Rightarrow> caller system" where
  "spawn_callers n s = \<lparr>shared = s, threads = replicate n new_caller\<rparr>"

section \<open>Concrete states\<close>

text \<open>The states at which the results below evaluate the program.\<close>

text \<open>The argument \<open>main\<close> passes to \<open>unsafe_string_operation\<close>.\<close>

definition main_argument :: string where
  "main_argument = ''This is a very long string that will definitely cause buffer overflow''"

text \<open>
  A program whose \<open>g_buffer\<close> points to a block of 8 bytes at address 1, with the rest of
  the heap free from address 100 on.
\<close>

definition small_buffer_program :: program where
  "small_buffer_program =
     (program_start (fresh_memory\<lparr>live := [(1, 8)], brk := 100\<rparr>))\<lparr>g_buffer := Some 1\<rparr>"

text \<open>
  Two workers that ran one after the other from the start of the program: each allocated
  its 1000 bytes and copied \<open>"Some data"\<close> there.
\<close>

definition after_two_workers :: "worker system" where
  "after_two_workers =
     \<lparr>shared =
        (program_start
          (fresh_memory
             \<lparr>bytes := store_bytes 1001 (''Some data'' @ [NUL])
                         (store_bytes 1 (''Some data'' @ [NUL]) (\<lambda>a. NUL)),
              live := [(1001, 1000), (1, 1000)], brk := 2001\<rparr>))\<lparr>g_counter := 2\<rparr>,
      threads = [\<lparr>pc = Returned, loaded = 0, temp = Some 1\<rparr>,
                 \<lparr>pc = Returned, loaded = 1, temp = Some 1001\<rparr>]\<rparr>"

text \<open>
  The program after its first \<open>getInstance()\<close>: the object at address 1, its \<open>data\<close> at
  address 9.
\<close>

definition ready_program :: program where
  "ready_program =
     (program_start (fresh_memory\<lparr>live := [(9, 4000), (1, 8)], brk := 4009\<rparr>))
       \<lparr>BadSingleton_instance := Some 1, BadSingleton_objects := [(1, Some 9)]\<rparr>"

text \<open>
  That program after \<open>delete\<close> of the object at address 1: the object's 8 bytes are off the
  books, its \<open>data\<close> block is not, and \<open>instance\<close> still holds address 1.
\<close>

definition destroyed_program :: program where
  "destroyed_program =
     (program_start (fresh_memory\<lparr>live := [(9, 4000)], brk := 4009\<rparr>))
       \<lparr>BadSingleton_instance := Some 1, BadSingleton_objects := [(1, Some 9)]\<rparr>"

section \<open>Results about \<open>calculate_buffer_size\<close>\<close>

text \<open>
  C10. Whenever the product of the two arguments, wrapped to 32 bits two's complement
  (\<open>signed_take_bit 31\<close> of the integer product), is strictly positive,
  \<open>calculate_buffer_size\<close> returns exactly that wrapped product. The test is made on the
  wrapped value: when the wrapped product is zero or negative (also for a large product
  that overflows to such a value) the function returns the value of the uninitialised
  local \<open>result\<close>, which the model reports as \<open>UninitializedRead\<close>.
\<close>

theorem calculate_buffer_size_wrapped_product:
  "(0 < signed_take_bit 31 (sint num_elements * sint element_size) \<longrightarrow>
      calculate_buffer_size num_elements element_size = Inr (num_elements * element_size) \<and>
      sint (num_elements * element_size) =
        signed_take_bit 31 (sint num_elements * sint element_size)) \<and>
   (signed_take_bit 31 (sint num_elements * sint element_size) \<le> 0 \<longrightarrow>
      calculate_buffer_size num_elements element_size = Inl UninitializedRead)"
  by (simp add: calculate_buffer_size_def word_sless_alt sint_word_ariths)

theorem calculate_buffer_size_wrapped_product_witness:
  "calculate_buffer_size 3 4 = Inr 12 \<and> sint (12 :: int32) = 12 \<and>
   calculate_buffer_size 65536 65536 = Inl UninitializedRead \<and>
   calculate_buffer_size 65536 32768 = Inl UninitializedRead"
  using calculate_buffer_size_wrapped_product [of 3 4]
    calculate_buffer_size_wrapped_product [of 65536 65536]
    calculate_buffer_size_wrapped_product [of 65536 32768]
  by (simp add: signed_take_bit_eq_take_bit_minus)

section \<open>Results about memory and strings\<close>

lemma store_bytes_outside:
  "x < a \<or> a + length cs \<le> x \<Longrightarrow> store_bytes a cs b x = b x"
  by (induction a cs b rule: store_bytes.induct) auto

lemma store_bytes_inside:
  "i < length cs \<Longrightarrow> store_bytes a cs b (a + i) = cs ! i"
proof (induction a cs b arbitrary: i rule: store_bytes.induct)
  case (1 a b)
  then show ?case by simp
next
  case (2 a c cs b)
  show ?case
  proof (cases i)
    case 0
    then show ?thesis by (simp add: store_bytes_outside)
  next
    case (Suc j)
    with "2.prems" have "j < length cs" by simp
    then have "store_bytes (Suc a) cs (b(a := c)) (Suc a + j) = cs ! j"
      by (rule "2.IH")
    with Suc show ?thesis by simp
  qed
qed

lemma c_str_no_NUL: "NUL \<notin> set (c_str s)"
  unfolding c_str_def by (induction s) auto

text \<open>The walk of \<open>strlen\<close> ends at the first NUL at or after its starting offset.\<close>

lemma strlen_from_finds:
  assumes "b (a + n) = NUL" and "\<forall>i. k \<le> i \<and> i < n \<longrightarrow> b (a + i) \<noteq> NUL" and "k \<le> n"
  shows "strlen_from b a k = Some n"
  using assms
proof (induction "n - k" arbitrary: k)
  case 0
  then have "k = n" by simp
  with 0 show ?case by (subst strlen_from.simps) simp
next
  case (Suc d)
  then have less: "k < n" by simp
  with Suc.prems have "b (a + k) \<noteq> NUL" by simp
  moreover have "strlen_from b a (Suc k) = Some n"
    using Suc less by (intro Suc.hyps) auto
  ultimately show ?case by (subst strlen_from.simps) simp
qed

lemma strlen_after_strcpy:
  "strlen a (strcpy_at a src m) = Some (length (c_str src))"
proof -
  let ?cs = "c_str src @ [NUL]"
  let ?b = "store_bytes a ?cs (bytes m)"
  have "?b (a + length (c_str src)) = NUL"
    using store_bytes_inside [of "length (c_str src)" ?cs a "bytes m"] by simp
  moreover have "\<forall>i. 0 \<le> i \<and> i < length (c_str src) \<longrightarrow> ?b (a + i) \<noteq> NUL"
  proof (intro allI impI)
    fix i assume "0 \<le> i \<and> i < length (c_str src)"
    then have i: "i < length (c_str src)" by simp
    then have "?b (a + i) = c_str src ! i"
      using store_bytes_inside [of i ?cs a "bytes m"] by (simp add: nth_append)
    moreover have "c_str src ! i \<in> set (c_str src)" using i by simp
    ultimately show "?b (a + i) \<noteq> NUL" using c_str_no_NUL [of src] by metis
  qed
  ultimately have "strlen_from ?b a 0 = Some (length (c_str src))"
    by (intro strlen_from_finds) auto
  then show ?thesis by (simp add: strlen_def strcpy_at_def)
qed

text \<open>
  \<open>unsafe_string_operation\<close> always returns: \<open>strcat\<close> finds the terminator that \<open>strcpy\<close>
  has just stored.
\<close>

lemma unsafe_string_operation_eq:
  "unsafe_string_operation buf input line m =
     Some (gets buf line
       ((strcpy_at buf input m)
          \<lparr>bytes := store_bytes (buf + length (c_str input)) (c_str ''_suffix'' @ [NUL])
                      (bytes (strcpy_at buf input m))\<rparr>))"
  by (simp add: unsafe_string_operation_def strcat_def strlen_after_strcpy Let_def)

lemma c_str_main_argument: "c_str main_argument = main_argument"
  by (simp add: c_str_def main_argument_def NUL_def)

lemma length_main_argument: "length main_argument = 69"
  by (simp add: main_argument_def)

lemma main_argument_at_64: "(main_argument @ [NUL]) ! 64 = CHR ''r''"
  by (simp add: main_argument_def)

lemma c_str_suffix: "c_str ''_suffix'' = ''_suffix''"
  by (simp add: c_str_def NUL_def)

lemma c_str_Some_data: "c_str ''Some data'' = ''Some data''"
  by (simp add: c_str_def NUL_def)

lemma c_str_Thread_was_here: "c_str ''Thread was here'' = ''Thread was here''"
  by (simp add: c_str_def NUL_def)

lemma replicate_two: "replicate 2 x = [x, x]"
  by (simp add: numeral_2_eq_2)

section \<open>Results about \<open>BadResourceManager\<close> and \<open>DerivedBadClass\<close>\<close>

text \<open>
  What a successful construction leaves: one more block on the books, the 1024 bytes of
  \<open>data\<close>, and one more open file unless \<open>fopen\<close> failed.
\<close>

lemma BadResourceManager_ctor_allocates:
  assumes "BadResourceManager_ctor m = Inr (obj, m')"
  shows "data obj = Some (brk m) \<and> live m' = (brk m, 1024) # live m \<and>
         (file_handle obj = None \<and> open_files m' = open_files m \<or>
          file_handle obj = Some (next_file m) \<and> open_files m' = next_file m # open_files m)"
  using assms
  by (auto simp: BadResourceManager_ctor_def operator_new_def alloc_def fopen_w_def
      split: if_splits)

text \<open>The destructor gives nothing back: the block is still on the books after it.\<close>

lemma BadResourceManager_buffer_stays_allocated:
  assumes "BadResourceManager_ctor m = Inr (obj, m')"
  shows "live (BadResourceManager_dtor obj m') = (brk m, 1024) # live m"
  using BadResourceManager_ctor_allocates [OF assms] by (simp add: BadResourceManager_dtor_def)

lemma BadResourceManager_ctor_fresh:
  "BadResourceManager_ctor fresh_memory =
     Inr (\<lparr>data = Some 1, file_handle = Some 0, buffer_size = 1024\<rparr>,
          fresh_memory\<lparr>live := [(1, 1024)], brk := 1025, open_files := [0], next_file := 1\<rparr>)"
  by (simp add: BadResourceManager_ctor_def operator_new_def alloc_def fopen_w_def
      fresh_memory_def)

text \<open>
  Nor is the extra block of a \<open>DerivedBadClass\<close> given back, whichever way the object is
  destroyed.
\<close>

lemma DerivedBadClass_extra_stays_allocated:
  assumes "DerivedBadClass_ctor m = Inr (derived, m')" and "extra_data derived = Some x"
  shows "(x, 2048) \<in> set (live (DerivedBadClass_dtor derived m')) \<and>
         (x, 2048) \<in> set (live (destroy_through_base derived m'))"
proof -
  from assms(1) obtain base m1 where made: "malloc 2048 m1 = (extra_data derived, m')"
    by (auto simp: DerivedBadClass_ctor_def BadResourceManager.extend_def
        split: sum.splits prod.splits)
  with assms(2) have "(x, 2048) \<in> set (live m')"
    by (auto simp: malloc_def alloc_def split: if_splits)
  then show ?thesis
    by (simp add: DerivedBadClass_dtor_def destroy_through_base_def BadResourceManager_dtor_def)
qed

lemma DerivedBadClass_ctor_fresh:
  "DerivedBadClass_ctor fresh_memory =
     Inr (\<lparr>data = Some 1, file_handle = Some 0, buffer_size = 1024, extra_data = Some 1025\<rparr>,
          fresh_memory\<lparr>live := [(1025, 2048), (1, 1024)], brk := 3073,
                        open_files := [0], next_file := 1\<rparr>)"
  by (simp add: DerivedBadClass_ctor_def BadResourceManager_ctor_fresh malloc_def alloc_def
      BadResourceManager.extend_def) (simp add: fresh_memory_def)

text \<open>
  C2. The claim: constructing a \<open>ManagedResource\<close> and destroying it releases the buffer and
  the file handle, so that the accounting is back where it was, and a second destruction
  does nothing. In the code the destructor body is empty. From a process with no block and
  no file on the books, construction followed by destruction leaves the 1024-byte block at
  address 1 allocated and the file handle 0 open. (A second run of the destructor changes
  nothing, as the first did not.)
\<close>

theorem BadResourceManager_create_destroy_leaks:
  "(case BadResourceManager_ctor fresh_memory of
      Inl e \<Rightarrow> False
    | Inr (obj, m) \<Rightarrow>
        live fresh_memory = [] \<and> open_files fresh_memory = [] \<and>
        data obj = Some 1 \<and> file_handle obj = Some 0 \<and>
        live (BadResourceManager_dtor obj m) = [(1, 1024)] \<and>
        open_files (BadResourceManager_dtor obj m) = [0] \<and>
        BadResourceManager_dtor obj (BadResourceManager_dtor obj m) =
          BadResourceManager_dtor obj m)"
  by (simp add: BadResourceManager_ctor_fresh BadResourceManager_dtor_def)
    (simp add: fresh_memory_def)

text \<open>The copy holds the pointers of the original, and a write through it is read through
  the original.\<close>

lemma BadResourceManager_copy_ctor_aliases:
  "data (BadResourceManager_copy_ctor other) = data other \<and>
   file_handle (BadResourceManager_copy_ctor other) = file_handle other"
  by (simp add: BadResourceManager_copy_ctor_def)

lemma BadResourceManager_copy_write_seen:
  "buffer_write (BadResourceManager_copy_ctor other) i c m = Inr m' \<Longrightarrow>
   buffer_read other i m' = Inr c"
  by (auto simp: BadResourceManager_copy_ctor_def buffer_read_def buffer_write_def
      split: option.splits)

text \<open>
  C3. The claim: a clone has a buffer and a file handle of its own, so that writing to
  one copy's buffer never changes the other's. In the code the copy constructor copies the
  two pointers. For an object constructed in a fresh process, the copy has the same \<open>data\<close>
  pointer and the same file handle, no second block and no second file exist, and after
  \<open>'X'\<close> is written to byte 0 of the copy's buffer, byte 0 of the original's buffer, which
  was NUL, reads \<open>'X'\<close>.
\<close>

theorem BadResourceManager_copy_shares_buffer:
  "(case BadResourceManager_ctor fresh_memory of
      Inl e \<Rightarrow> False
    | Inr (source, m) \<Rightarrow>
        (let clone = BadResourceManager_copy_ctor source
         in data clone = data source \<and> file_handle clone = file_handle source \<and>
            live m = [(1, 1024)] \<and> open_files m = [0] \<and>
            buffer_read source 0 m = Inr NUL \<and>
            (case buffer_write clone 0 CHR ''X'' m of
               Inl e \<Rightarrow> False
             | Inr m' \<Rightarrow> buffer_read source 0 m' = Inr CHR ''X'')))"
  by (simp add: BadResourceManager_ctor_fresh BadResourceManager_copy_ctor_def buffer_read_def
      buffer_write_def) (simp add: fresh_memory_def)

text \<open>
  C4. The claim: destroying an \<open>ExtendedResource\<close> releases the extra allocation and then
  the base's resources, through the derived type and through a base-typed handle alike.
  In the code neither path releases anything. For a \<open>DerivedBadClass\<close> constructed in a
  fresh process, \<open>extra_data\<close> is the 2048-byte block at address 1025; after destruction
  through the derived type, and after destruction through a \<open>BadResourceManager*\<close>, that
  block, the base's 1024-byte block and the base's file are all still on the books.
\<close>

theorem DerivedBadClass_destroy_leaks_extra:
  "(case DerivedBadClass_ctor fresh_memory of
      Inl e \<Rightarrow> False
    | Inr (derived, m) \<Rightarrow>
        live fresh_memory = [] \<and> extra_data derived = Some 1025 \<and>
        live (DerivedBadClass_dtor derived m) = [(1025, 2048), (1, 1024)] \<and>
        live (destroy_through_base derived m) = [(1025, 2048), (1, 1024)] \<and>
        open_files (DerivedBadClass_dtor derived m) = [0] \<and>
        open_files (destroy_through_base derived m) = [0])"
  by (simp add: DerivedBadClass_ctor_fresh DerivedBadClass_dtor_def destroy_through_base_def
      BadResourceManager_dtor_def) (simp add: fresh_memory_def)

section \<open>Results about \<open>thread_function\<close> and the globals\<close>

text \<open>
  A call that returns has returned null, has added one to the counter it found and has
  left \<open>g_buffer\<close> and \<open>g_mutex\<close> as they were.
\<close>

lemma thread_function_returns:
  assumes "thread_function s = Inr (r, s')"
  shows "r = None \<and> g_counter s' = g_counter s + 1 \<and> g_buffer s' = g_buffer s \<and>
         g_mutex s' = g_mutex s"
  using assms
  by (auto simp: thread_function_def Let_def split: if_splits sum.splits prod.splits)

text \<open>
  With \<open>g_buffer\<close> null the only write goes to the block the call has allocated itself;
  with \<open>g_buffer\<close> set, \<open>"Thread was here"\<close> is copied there first.
\<close>

lemma thread_function_null_buffer:
  assumes "g_buffer s = None" and "malloc 1000 (mem s) = (Some t, m)"
  shows "thread_function s =
           Inr (None, s\<lparr>g_counter := g_counter s + 1, mem := strcpy_at t ''Some data'' m\<rparr>)"
  using assms by (simp add: thread_function_def Let_def strcpy_def)

lemma thread_function_buffer:
  assumes "g_buffer s = Some b"
    and "malloc 1000 (strcpy_at b ''Thread was here'' (mem s)) = (Some t, m)"
  shows "thread_function s =
           Inr (None, s\<lparr>g_counter := g_counter s + 1, mem := strcpy_at t ''Some data'' m\<rparr>)"
  using assms by (simp add: thread_function_def Let_def strcpy_def)

text \<open>When fewer than 1000 bytes of heap are left, \<open>malloc\<close> returns null and the
  \<open>strcpy\<close> that follows writes through it.\<close>

lemma thread_function_malloc_fails:
  assumes "heap_end (mem s) < brk (mem s) + 1000"
  shows "thread_function s = Inl NullDereference"
  using assms
  by (auto simp: thread_function_def Let_def strcpy_def strcpy_at_def malloc_def alloc_def
      split: option.splits)

text \<open>
  A worker thread scheduled alone, for its five steps, does what the call does.
\<close>

lemma worker_alone:
  "run thread_step [0, 0, 0, 0, 0] \<lparr>shared = s, threads = [new_worker]\<rparr> =
     (case thread_function s of
        Inl e \<Rightarrow> Inl e
      | Inr (r, s') \<Rightarrow>
          Inr \<lparr>shared = s',
               threads = [\<lparr>pc = Returned, loaded = g_counter s, temp = Some (brk (mem s))\<rparr>]\<rparr>)"
proof (cases "brk (mem s) + 1000 \<le> heap_end (mem s)")
  case room: True
  show ?thesis
  proof (cases "g_buffer s")
    case None
    with room show ?thesis
      by (simp add: thread_function_def step_def thread_step_def new_worker_def Let_def
          malloc_def alloc_def strcpy_def strcpy_at_def)
  next
    case (Some b)
    with room show ?thesis
      by (simp add: thread_function_def step_def thread_step_def new_worker_def Let_def
          malloc_def alloc_def strcpy_def strcpy_at_def)
  qed
next
  case full: False
  show ?thesis
  proof (cases "g_buffer s")
    case None
    with full show ?thesis
      by (simp add: thread_function_def step_def thread_step_def new_worker_def Let_def
          malloc_def alloc_def strcpy_def strcpy_at_def)
  next
    case (Some b)
    with full show ?thesis
      by (simp add: thread_function_def step_def thread_step_def new_worker_def Let_def
          malloc_def alloc_def strcpy_def strcpy_at_def)
  qed
qed

text \<open>No step of a worker touches the mutex, the buffer pointer or the singleton.\<close>

lemma thread_step_frame:
  assumes "thread_step w s = Inr (w', s')"
  shows "g_mutex s' = g_mutex s \<and> g_buffer s' = g_buffer s \<and>
         BadSingleton_instance s' = BadSingleton_instance s"
  using assms
  by (cases "pc w") (auto simp: thread_step_def split: if_splits sum.splits prod.splits)

lemma run_thread_step_g_mutex:
  "run thread_step sched sys = Inr sys' \<Longrightarrow> g_mutex (shared sys') = g_mutex (shared sys)"
proof (induction sched arbitrary: sys)
  case Nil
  then show ?case by simp
next
  case (Cons i sched)
  from Cons.prems obtain sys1 where first: "step thread_step i sys = Inr sys1"
    and rest: "run thread_step sched sys1 = Inr sys'"
    by (auto split: sum.splits)
  from first have "g_mutex (shared sys1) = g_mutex (shared sys)"
    by (auto simp: step_def split: if_splits sum.splits dest: thread_step_frame)
  with Cons.IH [OF rest] show ?case by simp
qed

lemma main_locked_increment_Uninitialized:
  "g_mutex s = Uninitialized \<Longrightarrow> main_locked_increment s = Inl UninitializedMutex"
  by (simp add: main_locked_increment_def pthread_mutex_lock_def)

text \<open>
  Two workers from the start of the program, the second scheduled after the first has
  returned: the counter ends at 2.
\<close>

lemma two_workers_one_after_the_other:
  "run thread_step [0, 0, 0, 0, 0, 1, 1, 1, 1, 1]
     (spawn_workers 2 (program_start fresh_memory)) = Inr after_two_workers"
  by (simp add: step_def thread_step_def spawn_workers_def new_worker_def program_start_def
      malloc_def alloc_def strcpy_def strcpy_at_def replicate_two fresh_memory_def
      after_two_workers_def c_str_Some_data)

text \<open>
  C1. The claim: after \<open>N\<close> worker tasks, interleaved in any way, the counter is its value
  before the run plus \<open>N\<close>; no update is lost. In the code \<open>thread_function\<close> increments
  \<open>g_counter\<close> with no lock held (\<open>main\<close> takes \<open>g_mutex\<close> around its own increment). With
  two workers from the start of the program, scheduled so that both load the counter
  before either stores it, both run to their \<open>return\<close> and the counter, 0 before the run,
  ends at 1.
\<close>

theorem thread_function_lost_update:
  "(case run thread_step [0, 1, 0, 1, 0, 0, 0, 1, 1, 1]
           (spawn_workers 2 (program_start fresh_memory)) of
      Inl e \<Rightarrow> False
    | Inr sys \<Rightarrow>
        map pc (threads sys) = [Returned, Returned] \<and>
        g_counter (program_start fresh_memory) = 0 \<and>
        g_counter (shared sys) = 1)"
  by (simp add: step_def thread_step_def spawn_workers_def new_worker_def program_start_def
      malloc_def alloc_def strcpy_def strcpy_at_def replicate_two fresh_memory_def)

text \<open>
  C5. The claim: the guard is initialised before any operation locks it. In the code
  \<open>g_mutex\<close> is declared and never initialised. Whatever memory the program starts with,
  however many workers it has created and however far any schedule has run them, the
  mutex is still uninitialised, and the \<open>pthread_mutex_lock\<close> of \<open>main\<close> meets it in that
  state.
\<close>

theorem main_locks_uninitialized_mutex:
  assumes "run thread_step sched (spawn_workers n (program_start m)) = Inr sys"
  shows "g_mutex (shared sys) = Uninitialized \<and>
         main_locked_increment (shared sys) = Inl UninitializedMutex"
proof -
  have "g_mutex (shared sys) = g_mutex (shared (spawn_workers n (program_start m)))"
    using assms by (rule run_thread_step_g_mutex)
  then have "g_mutex (shared sys) = Uninitialized"
    by (simp add: spawn_workers_def program_start_def)
  then show ?thesis by (simp add: main_locked_increment_Uninitialized)
qed

theorem main_locks_uninitialized_mutex_witness:
  "run thread_step [0, 0, 0, 0, 0, 1, 1, 1, 1, 1]
     (spawn_workers 2 (program_start fresh_memory)) = Inr after_two_workers \<and>
   g_mutex (shared after_two_workers) = Uninitialized \<and>
   main_locked_increment (shared after_two_workers) = Inl UninitializedMutex"
  using main_locks_uninitialized_mutex [OF two_workers_one_after_the_other]
    two_workers_one_after_the_other
  by simp

text \<open>
  C6. The claim: a text is checked against the capacity of its destination before it is
  written; one that does not fit is refused with \<open>CapacityError\<close>, the destination is left
  as it was, and nothing is written past the capacity. In the code both copies are
  unchecked \<open>strcpy\<close> calls.

  \<open>unsafe_string_operation\<close>, with the 69-character argument \<open>main\<close> passes, the 64-byte
  \<open>local_buffer\<close> at address 4096 and standard input at its end, returns normally; the byte
  at offset 64, just past the array and NUL before, is \<open>'r'\<close>, and the terminator lands at
  offset 76.

  \<open>thread_function\<close>, with \<open>g_buffer\<close> at an 8-byte block, returns normally (null, not an
  error); the block's first byte has changed from NUL to \<open>'T'\<close> and the byte at offset 8,
  just past the block, from NUL to \<open>'a'\<close>.
\<close>

theorem strcpy_writes_past_capacity:
  "(case unsafe_string_operation 4096 main_argument None fresh_memory of
      None \<Rightarrow> False
    | Some m \<Rightarrow>
        bytes fresh_memory (4096 + local_buffer_size) = NUL \<and>
        bytes m (4096 + local_buffer_size) = CHR ''r'' \<and>
        bytes m (4096 + local_buffer_size + 12) = NUL) \<and>
   (case thread_function small_buffer_program of
      Inl e \<Rightarrow> False
    | Inr (r, s) \<Rightarrow>
        r = None \<and> live (mem small_buffer_program) = [(1, 8)] \<and>
        bytes (mem small_buffer_program) 1 = NUL \<and> bytes (mem s) 1 = CHR ''T'' \<and>
        bytes (mem small_buffer_program) (1 + 8) = NUL \<and> bytes (mem s) (1 + 8) = CHR ''a'')"
proof -
  let ?b1 = "store_bytes 4096 (main_argument @ [NUL]) (bytes fresh_memory)"
  let ?b2 = "store_bytes (4096 + 69) (''_suffix'' @ [NUL]) ?b1"
  have "?b2 (4096 + 64) = ?b1 (4096 + 64)"
    by (rule store_bytes_outside) simp
  also have "\<dots> = (main_argument @ [NUL]) ! 64"
    by (rule store_bytes_inside) (simp add: length_main_argument)
  finally have past: "?b2 4160 = CHR ''r''"
    by (simp add: main_argument_at_64)
  have "?b2 ((4096 + 69) + 7) = (''_suffix'' @ [NUL]) ! 7"
    by (rule store_bytes_inside) simp
  then have terminator: "?b2 4172 = NUL" by simp
  have "bytes fresh_memory 4160 = NUL" by (simp add: fresh_memory_def)
  with past terminator have first: "(case unsafe_string_operation 4096 main_argument None fresh_memory of
      None \<Rightarrow> False
    | Some m \<Rightarrow>
        bytes fresh_memory (4096 + local_buffer_size) = NUL \<and>
        bytes m (4096 + local_buffer_size) = CHR ''r'' \<and>
        bytes m (4096 + local_buffer_size + 12) = NUL)"
    by (simp add: unsafe_string_operation_eq c_str_main_argument c_str_suffix
        length_main_argument gets_def local_buffer_size_def strcpy_at_def)
  have second: "(case thread_function small_buffer_program of
      Inl e \<Rightarrow> False
    | Inr (r, s) \<Rightarrow>
        r = None \<and> live (mem small_buffer_program) = [(1, 8)] \<and>
        bytes (mem small_buffer_program) 1 = NUL \<and> bytes (mem s) 1 = CHR ''T'' \<and>
        bytes (mem small_buffer_program) (1 + 8) = NUL \<and> bytes (mem s) (1 + 8) = CHR ''a'')"
    by (simp add: thread_function_def Let_def strcpy_def malloc_def alloc_def strcpy_at_def
        c_str_Some_data c_str_Thread_was_here small_buffer_program_def program_start_def
        fresh_memory_def)
  from first second show ?thesis by (rule conjI)
qed

text \<open>
  C9. The claim: every run of the worker increments the counter, writes the shared text
  only after a null check, and returns its completion signal. The first two hold of every
  call (\<open>thread_function_returns\<close>, \<open>thread_function_null_buffer\<close>,
  \<open>thread_function_buffer\<close>), and a call that returns returns null. A call need not
  return: the result of \<open>malloc(1000)\<close> is passed to \<open>strcpy\<close> unchecked. From the start of a
  program with 511 bytes of heap left, the call ends in a write through the null pointer.
\<close>

theorem thread_function_unchecked_malloc:
  "thread_function (program_start (fresh_memory\<lparr>heap_end := 512\<rparr>)) = Inl NullDereference"
  by (rule thread_function_malloc_fails) (simp add: program_start_def fresh_memory_def)

section \<open>Results about \<open>BadSingleton\<close>\<close>

text \<open>
  Called one after the other, \<open>getInstance\<close> constructs once: a call that returns has set
  \<open>instance\<close> to the non-null pointer it returns, and the next call returns the same
  pointer and changes nothing.
\<close>

lemma getInstance_sets_instance:
  "getInstance s = Inr (r, s') \<Longrightarrow> r \<noteq> None \<and> BadSingleton_instance s' = r"
  by (auto simp: getInstance_def Let_def split: if_splits sum.splits prod.splits)

lemma getInstance_again:
  "getInstance s = Inr (r, s') \<Longrightarrow> getInstance s' = Inr (r, s')"
  by (auto simp: getInstance_def Let_def split: if_splits sum.splits prod.splits)

lemma getInstance_ready:
  "BadSingleton_instance s = Some p \<Longrightarrow> getInstance s = Inr (Some p, s)"
  by (simp add: getInstance_def)

text \<open>A thread scheduled alone for its four steps does what the call does.\<close>

lemma caller_alone:
  "run getInstance_step [0, 0, 0, 0] \<lparr>shared = s, threads = [new_caller]\<rparr> =
     (case getInstance s of
        Inl e \<Rightarrow> Inl e
      | Inr (r, s') \<Rightarrow>
          Inr \<lparr>shared = s',
               threads = [\<lparr>cpc = Done,
                           created = (if BadSingleton_instance s = None then r else None),
                           result = r\<rparr>]\<rparr>)"
proof (cases "BadSingleton_instance s")
  case None
  show ?thesis
  proof (cases "new_BadSingleton s")
    case (Inl e)
    with None show ?thesis
      by (simp add: getInstance_def step_def getInstance_step_def new_caller_def)
  next
    case (Inr made)
    obtain p s1 where "made = (p, s1)" by (cases made)
    with None Inr show ?thesis
      by (simp add: getInstance_def step_def getInstance_step_def new_caller_def Let_def)
  qed
next
  case (Some p)
  then show ?thesis
    by (simp add: getInstance_def step_def getInstance_step_def new_caller_def)
qed

lemma getInstance_first:
  "getInstance (program_start fresh_memory) = Inr (Some 1, ready_program)"
  by (simp add: getInstance_def new_BadSingleton_def BadSingleton_ctor_def operator_new_def
      alloc_def sizeof_BadSingleton_def program_start_def fresh_memory_def ready_program_def)

text \<open>
  \<open>getInstance\<close> has no state in which it refuses: it fails in one case only, when
  \<open>instance\<close> is null and \<open>new\<close> throws.
\<close>

lemma getInstance_fails_only_BadAlloc:
  "getInstance s = Inl e \<Longrightarrow> e = BadAlloc \<and> BadSingleton_instance s = None"
  by (auto simp: getInstance_def new_BadSingleton_def BadSingleton_ctor_def operator_new_def
      Let_def split: if_splits option.splits sum.splits prod.splits)

text \<open>
  A \<open>delete\<close> that succeeds changes the memory only: \<open>instance\<close> is what it was, and the
  next call returns it.
\<close>

lemma delete_BadSingleton_keeps_instance:
  "delete_BadSingleton p s = Inr s' \<Longrightarrow>
   BadSingleton_instance s' = BadSingleton_instance s \<and>
   BadSingleton_objects s' = BadSingleton_objects s"
  by (auto simp: delete_BadSingleton_def BadSingleton_dtor_def Let_def split: sum.splits)

lemma getInstance_after_delete_BadSingleton:
  assumes "BadSingleton_instance s = Some p" and "delete_BadSingleton p s = Inr s'"
  shows "getInstance s' = Inr (Some p, s')"
proof -
  from assms have "BadSingleton_instance s' = Some p"
    by (simp add: delete_BadSingleton_keeps_instance)
  then show ?thesis by (rule getInstance_ready)
qed

text \<open>A second \<open>delete\<close> of the same object is a double free.\<close>

lemma delete_BadSingleton_twice:
  "delete_BadSingleton 1 destroyed_program = Inl InvalidFree"
  by (simp add: delete_BadSingleton_def BadSingleton_dtor_def release_def destroyed_program_def
      program_start_def fresh_memory_def)

text \<open>
  C7. The claim: at most one instance is ever constructed, also when several threads make
  their first call at once; all of them get the same instance. In the code the test and
  the assignment of \<open>getInstance\<close> are not serialised. With two threads from the start of
  the program, scheduled so that both test \<open>instance\<close> before either assigns it, both run to
  their \<open>return\<close>; the first returns the object at address 1, the second the object at
  address 4009, and two objects have been constructed.
\<close>

theorem getInstance_constructs_twice:
  "(case run getInstance_step [0, 1, 0, 0, 0, 1, 1, 1]
           (spawn_callers 2 (program_start fresh_memory)) of
      Inl e \<Rightarrow> False
    | Inr sys \<Rightarrow>
        map cpc (threads sys) = [Done, Done] \<and>
        map result (threads sys) = [Some 1, Some 4009] \<and>
        map fst (BadSingleton_objects (shared sys)) = [4009, 1] \<and>
        BadSingleton_instance (shared sys) = Some 4009)"
  by (simp add: step_def getInstance_step_def spawn_callers_def new_caller_def
      program_start_def new_BadSingleton_def BadSingleton_ctor_def operator_new_def alloc_def
      sizeof_BadSingleton_def replicate_two fresh_memory_def)

text \<open>
  C8. The claim: once \<open>shutdown()\<close> has released the instance, every later
  \<open>get_or_create()\<close> fails with \<open>RegistryClosedError\<close> and constructs nothing. The code has
  no \<open>shutdown\<close>, no closed state and no such error. All it offers for destroying the
  instance is the public destructor, and its empty body leaves \<open>instance\<close> and \<open>data\<close> as
  they are.

  From the start of the program: the first \<open>getInstance()\<close> constructs the object at
  address 1; \<open>delete\<close> of that object takes its 8 bytes off the books, leaves its \<open>data\<close>
  block allocated and \<open>instance\<close> pointing at address 1; the next \<open>getInstance()\<close> returns
  that pointer, where the claim has it fail.
\<close>

theorem getInstance_returns_deleted_instance:
  "getInstance (program_start fresh_memory) = Inr (Some 1, ready_program) \<and>
   delete_BadSingleton 1 ready_program = Inr destroyed_program \<and>
   BadSingleton_instance destroyed_program = Some 1 \<and>
   live (mem ready_program) = [(9, 4000), (1, 8)] \<and>
   live (mem destroyed_program) = [(9, 4000)] \<and>
   getInstance destroyed_program = Inr (Some 1, destroyed_program)"
proof -
  have deleted: "delete_BadSingleton 1 ready_program = Inr destroyed_program"
    by (simp add: delete_BadSingleton_def BadSingleton_dtor_def release_def ready_program_def
        destroyed_program_def program_start_def fresh_memory_def)
  have still_set: "BadSingleton_instance destroyed_program = Some 1"
    by (simp add: destroyed_program_def)
  have books: "live (mem ready_program) = [(9, 4000), (1, 8)] \<and>
      live (mem destroyed_program) = [(9, 4000)]"
    by (simp add: ready_program_def destroyed_program_def program_start_def fresh_memory_def)
  from still_set have "getInstance destroyed_program = Inr (Some 1, destroyed_program)"
    by (rule getInstance_ready)
  with getInstance_first deleted still_set books show ?thesis by simp
qed

end
